theory Spec2Isabelle
  imports Main
begin

section \<open>The Hackbright project tracker (hackbright.py)\<close>

text \<open>
  The program is a command-line front end over three tables of a relational datastore.
  Each accessor runs one SQL statement and prints one formatted message; the command
  loop reads lines, splits them on whitespace and dispatches on the first token.

  The embedding keeps the datastore as explicit state (a record of three tables), turns
  every \<open>print\<close> into a returned text, and every Python exception into a value of
  the type \<open>fault\<close>.
\<close>

subsection \<open>Faults and output\<close>

text \<open>
  The exceptions the program can raise by itself. None of them is caught anywhere in
  \<^verbatim>\<open>hackbright.py\<close>, so each one ends the process.
  \<^item> \<open>TypeError\<close>: unpacking \<open>None\<close> (\<open>fetchone()\<close> found no row);
  \<^item> \<open>ValueError\<close>: unpacking a list of the wrong length;
  \<^item> \<open>IndexError\<close>: \<open>tokens[0]\<close> or \<open>args[0]\<close> on an empty list;
  \<^item> \<open>EOFError\<close>: \<open>input()\<close> at the end of the input.

  An \<open>INSERT\<close> that the datastore refuses raises as well, out of
  \<open>db.session.execute\<close>: \<open>ValueError\<close> for a text parameter that holds the NUL
  character, which the PostgreSQL driver cannot send, and \<open>DataError\<close> for a value
  that does not fit its column.
\<close>

datatype fault = TypeError | ValueError | IndexError | EOFError | DataError

text \<open>
  What the process writes to its standard output: the prompt of \<open>input(...)\<close> and
  the argument of each \<open>print(...)\<close> call.
\<close>

datatype event = Prompt string | Print string

subsection \<open>The datastore\<close>

text \<open>
  The three tables are created outside the program; its docstrings quote their
  declarations: students(id, first_name, last_name, github), projects(id, title,
  description, max_grade) and grades(id, student_github, project_title, grade), the
  names and titles \<open>character varying(30)\<close>, the description \<open>text\<close>, the grades
  \<open>integer\<close>. The \<open>id\<close> is assigned by the datastore and no statement of the
  program reads or writes it, so a row carries the remaining columns. Every such column
  is nullable (\<open>None\<close> is SQL's \<open>NULL\<close>, which Python receives as \<open>None\<close>). A
  table is the list of its rows in insertion order, which is the order a \<open>SELECT\<close>
  without \<open>ORDER BY\<close> scans them in. The program checks nothing before an
  \<open>INSERT\<close>; what the declared column types refuse is modelled with the write
  accessors below. The quoted declarations name no key and no foreign key, and none is
  modelled.
\<close>

record students_row =
  first_name :: "string option"
  last_name :: "string option"
  github :: "string option"

record projects_row =
  title :: "string option"
  description :: "string option"
  max_grade :: "int option"

record grades_row =
  student_github :: "string option"
  project_title :: "string option"
  grade :: "int option"

record database =
  students :: "students_row list"
  projects :: "projects_row list"
  grades :: "grades_row list"

subsection \<open>SQL comparison and Python formatting\<close>

text \<open>
  SQL's three-valued logic: a comparison with \<open>NULL\<close> is unknown (\<open>None\<close>), and
  \<open>WHERE\<close> and \<open>ON\<close> keep a row only when their condition is true.
\<close>

definition sql_eq :: "'a option \<Rightarrow> 'a option \<Rightarrow> bool option" where
  "sql_eq a b = (case (a, b) of (Some x, Some y) \<Rightarrow> Some (x = y) | _ \<Rightarrow> None)"

definition sql_and :: "bool option \<Rightarrow> bool option \<Rightarrow> bool option" where
  "sql_and p q =
     (if p = Some False \<or> q = Some False then Some False
      else if p = Some True \<and> q = Some True then Some True
      else None)"

definition sql_true :: "bool option \<Rightarrow> bool" where
  "sql_true p \<longleftrightarrow> p = Some True"

text \<open>\<open>cursor.fetchone()\<close>: the first row of the result, or \<open>None\<close>.\<close>

definition fetchone :: "'a list \<Rightarrow> 'a option" where
  "fetchone rows = (case rows of [] \<Rightarrow> None | row # _ \<Rightarrow> Some row)"

text \<open>
  Python's \<open>str\<close> of an \<open>int\<close> (decimal digits, a minus sign for a negative number)
  and the text an f-string puts for a column value, \<open>None\<close> included.
\<close>

definition digit_char :: "nat \<Rightarrow> char" where
  "digit_char d = char_of (of_char (CHR ''0'') + d)"

fun nat_digits :: "nat \<Rightarrow> string" where
  "nat_digits n =
     (if n < 10 then [digit_char n] else nat_digits (n div 10) @ [digit_char (n mod 10)])"

declare nat_digits.simps [simp del]

definition str_int :: "int \<Rightarrow> string" where
  "str_int i = (if i < 0 then CHR ''-'' # nat_digits (nat (- i)) else nat_digits (nat i))"

definition fmt_text :: "string option \<Rightarrow> string" where
  "fmt_text v = (case v of None \<Rightarrow> ''None'' | Some s \<Rightarrow> s)"

definition fmt_int :: "int option \<Rightarrow> string" where
  "fmt_int v = (case v of None \<Rightarrow> ''None'' | Some i \<Rightarrow> str_int i)"

subsection \<open>Read accessors\<close>

text \<open>
  \<^verbatim>\<open>SELECT first_name, last_name, github FROM students WHERE github = :github\<close>
\<close>

definition select_student ::
  "database \<Rightarrow> string \<Rightarrow> (string option \<times> string option \<times> string option) list" where
  "select_student db gh =
     map (\<lambda>s. (first_name s, last_name s, github s))
       (filter (\<lambda>s. sql_true (sql_eq (github s) (Some gh))) (students db))"

text \<open>
  \<open>get_student_by_github(github)\<close>: the row is unpacked without a check, and the
  handle that is printed is the one read from the row.
\<close>

definition get_student_by_github :: "database \<Rightarrow> string \<Rightarrow> fault + string" where
  "get_student_by_github db gh =
     (case fetchone (select_student db gh) of
        None \<Rightarrow> Inl TypeError
      | Some (fn, ln, g) \<Rightarrow>
          Inr (''Student: '' @ fmt_text fn @ '' '' @ fmt_text ln
               @ ''\<newline>GitHub account: '' @ fmt_text g))"

text \<open>
  \<^verbatim>\<open>SELECT title, description, max_grade FROM projects WHERE title = :title\<close>
\<close>

definition select_project ::
  "database \<Rightarrow> string \<Rightarrow> (string option \<times> string option \<times> int option) list" where
  "select_project db t =
     map (\<lambda>p. (title p, description p, max_grade p))
       (filter (\<lambda>p. sql_true (sql_eq (title p) (Some t))) (projects db))"

definition get_project_by_title :: "database \<Rightarrow> string \<Rightarrow> fault + string" where
  "get_project_by_title db t =
     (case fetchone (select_project db t) of
        None \<Rightarrow> Inl TypeError
      | Some (t', d, m) \<Rightarrow>
          Inr (fmt_text t' @ '': '' @ fmt_text d @ ''\<newline>Max grade: '' @ fmt_int m))"

text \<open>
  \<^verbatim>\<open>FROM students LEFT JOIN grades ON (grades.student_github = students.github)\<close>:
  every students row with each grades row the \<open>ON\<close> condition accepts, in the order
  of the two tables; a students row that no grades row joins is kept once, beside a
  grades row of \<open>NULL\<close>s.
\<close>

definition null_grades_row :: grades_row where
  "null_grades_row = \<lparr>student_github = None, project_title = None, grade = None\<rparr>"

definition left_join :: "students_row list \<Rightarrow> grades_row list \<Rightarrow> (students_row \<times> grades_row) list" where
  "left_join ss gs =
     concat (map (\<lambda>s.
       (let ms = filter (\<lambda>g. sql_true (sql_eq (student_github g) (github s))) gs
        in if ms = [] then [(s, null_grades_row)] else map (Pair s) ms)) ss)"

text \<open>
  \<^verbatim>\<open>SELECT first_name, last_name, grade FROM students LEFT JOIN grades ON (...)
  WHERE grades.project_title = :title AND grades.student_github = :github\<close>
\<close>

definition select_grade ::
  "database \<Rightarrow> string \<Rightarrow> string \<Rightarrow> (string option \<times> string option \<times> int option) list" where
  "select_grade db gh t =
     map (\<lambda>(s, g). (first_name s, last_name s, grade g))
       (filter (\<lambda>(s, g). sql_true (sql_and (sql_eq (project_title g) (Some t))
                                             (sql_eq (student_github g) (Some gh))))
          (left_join (students db) (grades db)))"

text \<open>
  \<open>get_grade_by_github_title(github, title)\<close>: the title that is printed is the
  argument, the names and the grade come from the row.
\<close>

definition get_grade_by_github_title :: "database \<Rightarrow> string \<Rightarrow> string \<Rightarrow> fault + string" where
  "get_grade_by_github_title db gh t =
     (case fetchone (select_grade db gh t) of
        None \<Rightarrow> Inl TypeError
      | Some (fn, ln, g) \<Rightarrow>
          Inr (fmt_text fn @ '' '' @ fmt_text ln @ [CHR 0x27] @ ''s '' @ t
               @ '' project received '' @ fmt_int g @ '' points''))"

subsection \<open>Write accessors\<close>

text \<open>
  What PostgreSQL (the datastore of the connection string
  \<open>postgresql:///project-tracker\<close>) does with a value assigned to a column of the
  quoted declarations:
  \<^item> a text parameter that holds NUL never reaches the datastore: the driver raises
    \<open>ValueError\<close> when it binds the parameter;
  \<^item> \<open>character varying(30)\<close> keeps a value of at most 30 characters; of a longer
    value it keeps the first 30 characters when all the others are spaces, and refuses
    it otherwise;
  \<^item> \<open>integer\<close> keeps a value of the 32-bit signed range and refuses any other.
  A refused statement raises, and stores nothing.
\<close>

definition has_nul :: "string \<Rightarrow> bool" where
  "has_nul s \<longleftrightarrow> CHR 0x00 \<in> set s"

definition store_varchar30 :: "string \<Rightarrow> fault + string" where
  "store_varchar30 s =
     (if length s \<le> 30 then Inr s
      else if list_all (\<lambda>c. c = CHR '' '') (drop 30 s) then Inr (take 30 s)
      else Inl DataError)"

definition store_integer :: "int \<Rightarrow> fault + int" where
  "store_integer n =
     (if - 2147483648 \<le> n \<and> n \<le> 2147483647 then Inr n else Inl DataError)"

text \<open>
  \<^verbatim>\<open>INSERT INTO students (first_name, last_name, github) VALUES (...)\<close>, commit, and
  the confirmation, which prints the arguments. The result is the new datastore and the
  printed text, or the fault of a refused \<open>INSERT\<close>.
\<close>

definition make_new_student ::
  "database \<Rightarrow> string \<Rightarrow> string \<Rightarrow> string \<Rightarrow> fault + (database \<times> string)" where
  "make_new_student db fn ln gh =
     (if has_nul fn \<or> has_nul ln \<or> has_nul gh then Inl ValueError
      else
        (case (store_varchar30 fn, store_varchar30 ln, store_varchar30 gh) of
           (Inr fn', Inr ln', Inr gh') \<Rightarrow>
             Inr (db\<lparr>students := students db
                    @ [\<lparr>first_name = Some fn', last_name = Some ln', github = Some gh'\<rparr>]\<rparr>,
                  ''Successfully added '' @ fn @ '' '' @ ln @ ''.'')
         | _ \<Rightarrow> Inl DataError))"

text \<open>
  \<^verbatim>\<open>INSERT INTO grades (student_github, project_title, grade) VALUES (...)\<close>, commit,
  and the confirmation.
\<close>

definition assign_grade ::
  "database \<Rightarrow> string \<Rightarrow> string \<Rightarrow> int \<Rightarrow> fault + (database \<times> string)" where
  "assign_grade db gh t n =
     (if has_nul gh \<or> has_nul t then Inl ValueError
      else
        (case (store_varchar30 gh, store_varchar30 t, store_integer n) of
           (Inr gh', Inr t', Inr n') \<Rightarrow>
             Inr (db\<lparr>grades := grades db
                    @ [\<lparr>student_github = Some gh', project_title = Some t', grade = Some n'\<rparr>]\<rparr>,
                  ''Successfully graded '' @ gh @ [CHR 0x27] @ ''s '' @ t @ '' project ''
                    @ str_int n @ '' points.'')
         | _ \<Rightarrow> Inl DataError))"

subsection \<open>The command loop\<close>

text \<open>
  \<open>str.split()\<close> without a separator: the maximal runs of characters that are not
  whitespace, in order. A character is a code point below 256 here, and the
  whitespace among those is what \<open>str.isspace\<close> accepts: tab, line feed, vertical
  tab, form feed, carriage return, the four separators 0x1C to 0x1F, space, next line
  (0x85) and no-break space (0xA0). \<open>split_from cur s\<close> scans \<open>s\<close> with \<open>cur\<close>
  the token read so far; a whitespace character closes a token that is not empty.
\<close>

definition is_space :: "char \<Rightarrow> bool" where
  "is_space c \<longleftrightarrow>
     of_char c \<in> set [0x09, 0x0A, 0x0B, 0x0C, 0x0D, 0x1C, 0x1D, 0x1E, 0x1F, 0x20, 0x85, 0xA0 :: nat]"

fun split_from :: "string \<Rightarrow> string \<Rightarrow> string list" where
  "split_from cur [] = (if cur = [] then [] else [cur])"
| "split_from cur (c # cs) =
     (if is_space c then (if cur = [] then [] else [cur]) @ split_from [] cs
      else split_from (cur @ [c]) cs)"

definition str_split :: "string \<Rightarrow> string list" where
  "str_split s = split_from [] s"

definition prompt :: string where
  "prompt = ''HBA Database> ''"

text \<open>
  The body of the \<open>while\<close> loop after \<open>input\<close> has returned a line: the command (which
  the loop condition tests next), the datastore and what was printed, or the fault that
  ends the process. A fault leaves the datastore as it was: the unpacking faults come
  before any statement, and a refused \<open>INSERT\<close> stores nothing.
\<close>

definition handle_line :: "database \<Rightarrow> string \<Rightarrow> fault + (string \<times> database \<times> event list)" where
  "handle_line db input_string =
     (case str_split input_string of
        [] \<Rightarrow> Inl IndexError
      | command # args \<Rightarrow>
          if command = ''student'' then
            (case args of
               [] \<Rightarrow> Inl IndexError
             | gh # _ \<Rightarrow>
                 (case get_student_by_github db gh of
                    Inl e \<Rightarrow> Inl e
                  | Inr text \<Rightarrow> Inr (command, db, [Print text])))
          else if command = ''new_student'' then
            (case args of
               [fn, ln, gh] \<Rightarrow>
                 (case make_new_student db fn ln gh of
                    Inl e \<Rightarrow> Inl e
                  | Inr (db', text) \<Rightarrow> Inr (command, db', [Print text]))
             | _ \<Rightarrow> Inl ValueError)
          else if command \<noteq> ''quit'' then
            Inr (command, db, [Print ''Invalid Entry. Try again.''])
          else Inr (command, db, []))"

text \<open>
  How a run of the loop ends, with the datastore it leaves and everything it wrote.
  The standard input is the list of the lines still to be read; \<open>input\<close> writes the
  prompt first and raises \<open>EOFError\<close> when no line is left.
\<close>

datatype outcome = Terminated | Crashed fault

type_synonym run = "outcome \<times> database \<times> event list"

definition emit :: "event list \<Rightarrow> run \<Rightarrow> run" where
  "emit out r = (case r of (oc, db, out') \<Rightarrow> (oc, db, out @ out'))"

fun handle_input :: "database \<Rightarrow> string list \<Rightarrow> run" where
  "handle_input db [] = (Crashed EOFError, db, [Prompt prompt])"
| "handle_input db (input_string # rest) =
     (case handle_line db input_string of
        Inl e \<Rightarrow> (Crashed e, db, [Prompt prompt])
      | Inr (command, db', out) \<Rightarrow>
          if command \<noteq> ''quit'' then emit (Prompt prompt # out) (handle_input db' rest)
          else (Terminated, db', Prompt prompt # out))"

subsection \<open>The script\<close>

text \<open>
  The two configuration entries the program writes. \<open>app = Flask(__name__)\<close> starts
  with neither of them set.
\<close>

record flask_config =
  SQLALCHEMY_DATABASE_URI :: "string option"
  SQLALCHEMY_TRACK_MODIFICATIONS :: "bool option"

definition app :: flask_config where
  "app = \<lparr>SQLALCHEMY_DATABASE_URI = None, SQLALCHEMY_TRACK_MODIFICATIONS = None\<rparr>"

text \<open>
  \<open>connect_to_db(app)\<close> writes the two entries and binds the application; it runs
  no statement.
\<close>

definition connect_to_db :: "flask_config \<Rightarrow> flask_config" where
  "connect_to_db a =
     a\<lparr>SQLALCHEMY_DATABASE_URI := Some ''postgresql:///project-tracker'',
       SQLALCHEMY_TRACK_MODIFICATIONS := Some False\<rparr>"

text \<open>
  The block under \<open>if __name__ == "__main__"\<close>: \<open>connect_to_db(app)\<close>, then
  \<open>db.session.close()\<close>. The call \<open>handle_input()\<close> between the two is commented
  out in the source, so the script reads no line, writes nothing and runs no statement.
\<close>

definition main :: "database \<Rightarrow> string list \<Rightarrow> flask_config \<times> run" where
  "main db stdin = (connect_to_db app, (Terminated, db, []))"

subsection \<open>Auxiliary definitions\<close>

text \<open>
  The \<open>WHERE\<close> condition of the grade query as a predicate on a joined row, and the
  grades rows it can accept.
\<close>

definition grade_where :: "string \<Rightarrow> string \<Rightarrow> students_row \<times> grades_row \<Rightarrow> bool" where
  "grade_where gh t =
     (\<lambda>(s, g). sql_true (sql_and (sql_eq (project_title g) (Some t))
                                  (sql_eq (student_github g) (Some gh))))"

definition matching_grades :: "string \<Rightarrow> string \<Rightarrow> grades_row list \<Rightarrow> grades_row list" where
  "matching_grades gh t gs =
     filter (\<lambda>g. student_github g = Some gh \<and> project_title g = Some t) gs"

text \<open>
  The query the spec compares the grade query with: the same \<open>SELECT\<close> over an inner
  join, which keeps no students row without a joined grades row.
\<close>

definition inner_join :: "students_row list \<Rightarrow> grades_row list \<Rightarrow> (students_row \<times> grades_row) list" where
  "inner_join ss gs =
     concat (map (\<lambda>s.
       map (Pair s) (filter (\<lambda>g. sql_true (sql_eq (student_github g) (github s))) gs)) ss)"

definition select_grade_inner_join ::
  "database \<Rightarrow> string \<Rightarrow> string \<Rightarrow> (string option \<times> string option \<times> int option) list" where
  "select_grade_inner_join db gh t =
     map (\<lambda>(s, g). (first_name s, last_name s, grade g))
       (filter (\<lambda>(s, g). sql_true (sql_and (sql_eq (project_title g) (Some t))
                                             (sql_eq (student_github g) (Some gh))))
          (inner_join (students db) (grades db)))"

text \<open>A small datastore on which the theorems below are run.\<close>

definition example_db :: database where
  "example_db =
     \<lparr>students =
        [\<lparr>first_name = Some ''Jane'', last_name = Some ''Hacker'', github = Some ''jhacks''\<rparr>,
         \<lparr>first_name = Some ''Sarah'', last_name = Some ''Developer'',
          github = Some ''sdevelops''\<rparr>],
      projects =
        [\<lparr>title = Some ''Blockly'', description = Some ''Programmatic logic puzzle game'',
          max_grade = Some 100\<rparr>],
      grades =
        [\<lparr>student_github = Some ''jhacks'', project_title = Some ''Blockly'', grade = Some 2\<rparr>,
         \<lparr>student_github = Some ''sdevelops'', project_title = Some ''Markdown Challenge'',
          grade = Some 50\<rparr>]\<rparr>"

section \<open>Properties\<close>

subsection \<open>SQL conditions and the result of each query\<close>

lemma sql_true_eq_Some: "sql_true (sql_eq a (Some x)) \<longleftrightarrow> a = Some x"
  by (cases a) (auto simp: sql_true_def sql_eq_def)

lemma sql_true_eq: "sql_true (sql_eq a b) \<longleftrightarrow> a \<noteq> None \<and> a = b"
  by (cases a; cases b) (auto simp: sql_true_def sql_eq_def)

lemma sql_true_and: "sql_true (sql_and p q) \<longleftrightarrow> sql_true p \<and> sql_true q"
  by (auto simp: sql_true_def sql_and_def)

lemma fetchone_simps: "fetchone [] = None" "fetchone (r # rs) = Some r"
  by (simp_all add: fetchone_def)

lemma not_in_map_filter: "v \<notin> set (map f xs) \<Longrightarrow> filter (\<lambda>x. f x = v) xs = []"
  by (induction xs) auto

lemma find_filter: "find P xs = Some x \<Longrightarrow> \<exists>ys. filter P xs = x # ys"
  by (induction xs) (auto split: if_splits)

lemma select_student_rows:
  "select_student db gh =
     map (\<lambda>s. (first_name s, last_name s, github s))
       (filter (\<lambda>s. github s = Some gh) (students db))"
  by (simp add: select_student_def sql_true_eq_Some)

lemma grade_where_iff:
  "grade_where gh t (s, g) \<longleftrightarrow> project_title g = Some t \<and> student_github g = Some gh"
  by (simp add: grade_where_def sql_true_and sql_true_eq_Some)

lemma grade_where_null: "\<not> grade_where gh t (s, null_grades_row)"
  by (simp add: grade_where_iff null_grades_row_def)

lemma where_joined_grades:
  "filter (\<lambda>g. grade_where gh t (s, g))
     (filter (\<lambda>g. sql_true (sql_eq (student_github g) (github s))) gs) =
   (if github s = Some gh then matching_grades gh t gs else [])"
  by (auto simp: matching_grades_def grade_where_iff sql_true_eq intro!: filter_cong)

text \<open>
  The rows of one students row in the left join, after the \<open>WHERE\<close> condition: the
  row of \<open>NULL\<close>s never passes it.
\<close>

lemma where_left_join_step:
  "filter (grade_where gh t)
     (let ms = filter (\<lambda>g. sql_true (sql_eq (student_github g) (github s))) gs
      in if ms = [] then [(s, null_grades_row)] else map (Pair s) ms) =
   (if github s = Some gh then map (Pair s) (matching_grades gh t gs) else [])"
proof -
  let ?ms = "filter (\<lambda>g. sql_true (sql_eq (student_github g) (github s))) gs"
  have "filter (grade_where gh t) (if ?ms = [] then [(s, null_grades_row)] else map (Pair s) ?ms)
        = map (Pair s) (filter (\<lambda>g. grade_where gh t (s, g)) ?ms)"
    by (auto simp: grade_where_null filter_map comp_def filter_empty_conv)
  also have "filter (\<lambda>g. grade_where gh t (s, g)) ?ms =
        (if github s = Some gh then matching_grades gh t gs else [])"
    by (rule where_joined_grades)
  finally show ?thesis
    by (simp add: Let_def)
qed

lemma where_left_join:
  "filter (grade_where gh t) (left_join ss gs) =
     concat (map (\<lambda>s. map (Pair s) (matching_grades gh t gs))
       (filter (\<lambda>s. github s = Some gh) ss))"
proof (induction ss)
  case Nil
  show ?case by (simp add: left_join_def)
next
  case (Cons s ss)
  have "left_join (s # ss) gs =
      (let ms = filter (\<lambda>g. sql_true (sql_eq (student_github g) (github s))) gs
       in if ms = [] then [(s, null_grades_row)] else map (Pair s) ms) @ left_join ss gs"
    by (simp add: left_join_def)
  then show ?case
    using Cons.IH where_left_join_step [of gh t s gs] by simp
qed

lemma where_inner_join:
  "filter (grade_where gh t) (inner_join ss gs) =
     concat (map (\<lambda>s. map (Pair s) (matching_grades gh t gs))
       (filter (\<lambda>s. github s = Some gh) ss))"
proof (induction ss)
  case Nil
  show ?case by (simp add: inner_join_def)
next
  case (Cons s ss)
  have "inner_join (s # ss) gs =
      map (Pair s) (filter (\<lambda>g. sql_true (sql_eq (student_github g) (github s))) gs)
        @ inner_join ss gs"
    by (simp add: inner_join_def)
  moreover have "filter (grade_where gh t)
      (map (Pair s) (filter (\<lambda>g. sql_true (sql_eq (student_github g) (github s))) gs)) =
      (if github s = Some gh then map (Pair s) (matching_grades gh t gs) else [])"
    unfolding filter_map comp_def where_joined_grades by simp
  ultimately show ?case
    using Cons.IH by simp
qed

text \<open>
  The result of the grade query: for each students row with the handle, in table order,
  one row per grades row with the handle and the title.
\<close>

lemma select_grade_rows:
  "select_grade db gh t =
     concat (map (\<lambda>s. map (\<lambda>g. (first_name s, last_name s, grade g))
                         (matching_grades gh t (grades db)))
       (filter (\<lambda>s. github s = Some gh) (students db)))"
proof -
  have "select_grade db gh t =
      map (\<lambda>(s, g). (first_name s, last_name s, grade g))
        (filter (grade_where gh t) (left_join (students db) (grades db)))"
    by (simp add: select_grade_def grade_where_def)
  then show ?thesis
    by (simp add: where_left_join map_concat comp_def)
qed

lemma select_grade_inner_join_rows:
  "select_grade_inner_join db gh t =
     concat (map (\<lambda>s. map (\<lambda>g. (first_name s, last_name s, grade g))
                         (matching_grades gh t (grades db)))
       (filter (\<lambda>s. github s = Some gh) (students db)))"
proof -
  have "select_grade_inner_join db gh t =
      map (\<lambda>(s, g). (first_name s, last_name s, grade g))
        (filter (grade_where gh t) (inner_join (students db) (grades db)))"
    by (simp add: select_grade_inner_join_def grade_where_def)
  then show ?thesis
    by (simp add: where_inner_join map_concat comp_def)
qed

lemma select_grade_as_inner_join:
  "select_grade db gh t = select_grade_inner_join db gh t"
  by (simp only: select_grade_rows select_grade_inner_join_rows)

lemma no_matching_grades:
  "(Some gh, Some t) \<notin> set (map (\<lambda>g. (student_github g, project_title g)) gs)
     \<Longrightarrow> matching_grades gh t gs = []"
  by (induction gs) (auto simp: matching_grades_def)

lemma str_int_98: "str_int 98 = ''98''"
  by code_simp

subsection \<open>Read accessors\<close>

text \<open>
  Claim C1. Each of the three read accessors, when its query returns no row, ends in the
  fault raised by unpacking \<open>None\<close>: it prints nothing and reports no "not found".
\<close>

theorem read_accessors_fault_on_no_row:
  "(select_student db gh = [] \<longrightarrow> get_student_by_github db gh = Inl TypeError) \<and>
   (select_project db t = [] \<longrightarrow> get_project_by_title db t = Inl TypeError) \<and>
   (select_grade db gh' t' = [] \<longrightarrow> get_grade_by_github_title db gh' t' = Inl TypeError)"
  by (simp add: get_student_by_github_def get_project_by_title_def
      get_grade_by_github_title_def fetchone_simps)

text \<open>
  Claim C1 on the example datastore: no student \<open>nobody\<close>, no project \<open>Ghost\<close>, and
  no grade of \<open>sdevelops\<close> for \<open>Blockly\<close>.
\<close>

theorem read_accessors_fault_on_no_row_witness:
  "select_student example_db ''nobody'' = [] \<and>
   get_student_by_github example_db ''nobody'' = Inl TypeError \<and>
   select_project example_db ''Ghost'' = [] \<and>
   get_project_by_title example_db ''Ghost'' = Inl TypeError \<and>
   select_grade example_db ''sdevelops'' ''Blockly'' = [] \<and>
   get_grade_by_github_title example_db ''sdevelops'' ''Blockly'' = Inl TypeError"
proof -
  have s: "select_student example_db ''nobody'' = []"
    by (simp add: select_student_rows example_db_def)
  have p: "select_project example_db ''Ghost'' = []"
    by (simp add: select_project_def sql_true_eq_Some example_db_def)
  have g: "select_grade example_db ''sdevelops'' ''Blockly'' = []"
    by (simp add: select_grade_rows matching_grades_def example_db_def)
  from s p g
    read_accessors_fault_on_no_row
      [of example_db "''nobody''" "''Ghost''" "''sdevelops''" "''Blockly''"]
  show ?thesis by simp
qed

text \<open>
  Claim C8. When exactly one students row has the handle, \<open>get_student_by_github\<close>
  prints \<open>Student: {first_name} {last_name}\<close>, a line break and
  \<open>GitHub account: {handle}\<close>, with the names as the row stores them (formatted as an
  f-string formats them).
\<close>

theorem student_lookup_prints_row:
  assumes "filter (\<lambda>s. github s = Some gh) (students db) = [s]"
  shows "get_student_by_github db gh =
     Inr (''Student: '' @ fmt_text (first_name s) @ '' '' @ fmt_text (last_name s)
          @ ''\<newline>GitHub account: '' @ gh)"
proof -
  from assms have "s \<in> set (filter (\<lambda>s. github s = Some gh) (students db))"
    by simp
  then have gh: "github s = Some gh"
    by simp
  from assms have "select_student db gh = [(first_name s, last_name s, github s)]"
    by (simp add: select_student_rows)
  with gh show ?thesis
    by (simp add: get_student_by_github_def fetchone_simps fmt_text_def)
qed

text \<open>Claim C8 on the example datastore, for the handle \<open>jhacks\<close>.\<close>

theorem student_lookup_prints_row_witness:
  "filter (\<lambda>s. github s = Some ''jhacks'') (students example_db) =
     [\<lparr>first_name = Some ''Jane'', last_name = Some ''Hacker'', github = Some ''jhacks''\<rparr>] \<and>
   get_student_by_github example_db ''jhacks'' =
     Inr ''Student: Jane Hacker\<newline>GitHub account: jhacks''"
proof -
  have h: "filter (\<lambda>s. github s = Some ''jhacks'') (students example_db) =
     [\<lparr>first_name = Some ''Jane'', last_name = Some ''Hacker'', github = Some ''jhacks''\<rparr>]"
    by (simp add: example_db_def)
  from h student_lookup_prints_row [OF h] show ?thesis
    by (simp add: fmt_text_def)
qed

text \<open>
  Claim C4. When a students row has the handle but no grades row has both the handle and
  the title, the grade query returns no row at all, so \<open>get_grade_by_github_title\<close>
  ends in the unpack fault; the query returns what the same query over an inner join
  returns.
\<close>

theorem grade_lookup_without_grade_row:
  assumes "Some gh \<in> set (map github (students db))"
    and "(Some gh, Some t) \<notin> set (map (\<lambda>g. (student_github g, project_title g)) (grades db))"
  shows "select_grade db gh t = [] \<and>
         get_grade_by_github_title db gh t = Inl TypeError \<and>
         select_grade db gh t = select_grade_inner_join db gh t"
proof -
  from assms(2) have "matching_grades gh t (grades db) = []"
    by (rule no_matching_grades)
  then have none: "select_grade db gh t = []"
    by (simp add: select_grade_rows)
  then have "get_grade_by_github_title db gh t = Inl TypeError"
    by (simp add: get_grade_by_github_title_def fetchone_simps)
  moreover have "select_grade db gh t = select_grade_inner_join db gh t"
    by (rule select_grade_as_inner_join)
  ultimately show ?thesis
    using none by simp
qed

text \<open>
  Claim C4 on the example datastore: \<open>sdevelops\<close> is a student and has a grade, but
  none for \<open>Blockly\<close>.
\<close>

theorem grade_lookup_without_grade_row_witness:
  "Some ''sdevelops'' \<in> set (map github (students example_db)) \<and>
   select_grade example_db ''sdevelops'' ''Blockly'' = [] \<and>
   get_grade_by_github_title example_db ''sdevelops'' ''Blockly'' = Inl TypeError"
proof -
  have h1: "Some ''sdevelops'' \<in> set (map github (students example_db))"
    by (simp add: example_db_def)
  have h2: "(Some ''sdevelops'', Some ''Blockly'')
      \<notin> set (map (\<lambda>g. (student_github g, project_title g)) (grades example_db))"
    by (simp add: example_db_def)
  from h1 grade_lookup_without_grade_row [OF h1 h2] show ?thesis
    by simp
qed

subsection \<open>Write accessors followed by a read\<close>

lemma store_varchar30_fits: "length s \<le> 30 \<Longrightarrow> store_varchar30 s = Inr s"
  by (simp add: store_varchar30_def)

lemma make_new_student_accepted:
  assumes "\<not> has_nul fn" "\<not> has_nul ln" "\<not> has_nul gh"
    and "length fn \<le> 30" "length ln \<le> 30" "length gh \<le> 30"
  shows "make_new_student db fn ln gh =
     Inr (db\<lparr>students := students db
            @ [\<lparr>first_name = Some fn, last_name = Some ln, github = Some gh\<rparr>]\<rparr>,
          ''Successfully added '' @ fn @ '' '' @ ln @ ''.'')"
  using assms by (simp add: make_new_student_def store_varchar30_fits)

lemma assign_grade_accepted:
  assumes "\<not> has_nul gh" "\<not> has_nul t" and "length gh \<le> 30" "length t \<le> 30"
    and "- 2147483648 \<le> n" "n \<le> 2147483647"
  shows "assign_grade db gh t n =
     Inr (db\<lparr>grades := grades db
            @ [\<lparr>student_github = Some gh, project_title = Some t, grade = Some n\<rparr>]\<rparr>,
          ''Successfully graded '' @ gh @ [CHR 0x27] @ ''s '' @ t @ '' project ''
            @ str_int n @ '' points.'')"
  using assms by (simp add: assign_grade_def store_varchar30_fits store_integer_def)

text \<open>
  Claim C2, as amended. For a first name, a last name and a handle of at most 30
  characters that hold no NUL character, and a datastore with no students row of that
  handle, \<open>make_new_student(first, last, handle)\<close> inserts the row and prints its
  confirmation, and \<open>get_student_by_github(handle)\<close> on the datastore it leaves prints
  the first and last name just inserted.
\<close>

theorem new_student_then_lookup:
  assumes "\<not> has_nul fn" "\<not> has_nul ln" "\<not> has_nul gh"
    and "length fn \<le> 30" "length ln \<le> 30" "length gh \<le> 30"
    and "Some gh \<notin> set (map github (students db))"
  shows "make_new_student db fn ln gh =
           Inr (db\<lparr>students := students db
                  @ [\<lparr>first_name = Some fn, last_name = Some ln, github = Some gh\<rparr>]\<rparr>,
                ''Successfully added '' @ fn @ '' '' @ ln @ ''.'') \<and>
         get_student_by_github
           (db\<lparr>students := students db
              @ [\<lparr>first_name = Some fn, last_name = Some ln, github = Some gh\<rparr>]\<rparr>) gh =
           Inr (''Student: '' @ fn @ '' '' @ ln @ ''\<newline>GitHub account: '' @ gh)"
proof -
  let ?db' = "db\<lparr>students := students db
      @ [\<lparr>first_name = Some fn, last_name = Some ln, github = Some gh\<rparr>]\<rparr>"
  from assms(7) have "filter (\<lambda>s. github s = Some gh) (students db) = []"
    by (rule not_in_map_filter)
  then have "select_student ?db' gh = [(Some fn, Some ln, Some gh)]"
    by (simp add: select_student_rows)
  then have "get_student_by_github ?db' gh =
      Inr (''Student: '' @ fn @ '' '' @ ln @ ''\<newline>GitHub account: '' @ gh)"
    by (simp add: get_student_by_github_def fetchone_simps fmt_text_def)
  with make_new_student_accepted [OF assms(1-6), of db] show ?thesis
    by simp
qed

text \<open>Claim C2, as amended, on the example datastore, for a new student \<open>alovelace\<close>.\<close>

theorem new_student_then_lookup_witness:
  "Some ''alovelace'' \<notin> set (map github (students example_db)) \<and>
   make_new_student example_db ''Ada'' ''Lovelace'' ''alovelace'' =
     Inr (example_db\<lparr>students := students example_db
            @ [\<lparr>first_name = Some ''Ada'', last_name = Some ''Lovelace'',
                github = Some ''alovelace''\<rparr>]\<rparr>,
          ''Successfully added Ada Lovelace.'') \<and>
   get_student_by_github
     (example_db\<lparr>students := students example_db
        @ [\<lparr>first_name = Some ''Ada'', last_name = Some ''Lovelace'',
            github = Some ''alovelace''\<rparr>]\<rparr>) ''alovelace'' =
     Inr ''Student: Ada Lovelace\<newline>GitHub account: alovelace''"
proof -
  have n: "\<not> has_nul ''Ada''" "\<not> has_nul ''Lovelace''" "\<not> has_nul ''alovelace''"
    by (simp_all add: has_nul_def)
  have l: "length ''Ada'' \<le> 30" "length ''Lovelace'' \<le> 30" "length ''alovelace'' \<le> 30"
    by simp_all
  have h: "Some ''alovelace'' \<notin> set (map github (students example_db))"
    by (simp add: example_db_def)
  from h new_student_then_lookup [OF n l h] show ?thesis
    by simp
qed

text \<open>
  Claim C2 as stated fails for a name that the datastore refuses: a first name of 35
  characters does not fit \<open>character varying(30)\<close> and a first name that holds NUL
  cannot be sent. \<open>make_new_student\<close> raises, nothing is stored and nothing is printed,
  so a lookup of the handle finds no row.
\<close>

theorem new_student_refused_by_datastore:
  "make_new_student \<lparr>students = [], projects = [], grades = []\<rparr>
     ''Wolfeschlegelsteinhausenbergerdorff'' ''Hacker'' ''whacks'' = Inl DataError \<and>
   make_new_student \<lparr>students = [], projects = [], grades = []\<rparr>
     [CHR ''J'', CHR 0x00, CHR ''n''] ''Hacker'' ''whacks'' = Inl ValueError \<and>
   get_student_by_github \<lparr>students = [], projects = [], grades = []\<rparr> ''whacks'' =
     Inl TypeError"
  by (simp add: make_new_student_def has_nul_def store_varchar30_def
      get_student_by_github_def select_student_def fetchone_def)

text \<open>
  Claim C3, as amended. For a handle and a title of at most 30 characters that hold no
  NUL character and a grade of the 32-bit signed range, on a datastore that has a
  students row of the handle (\<open>s\<close> is the first one) and no grades row for the handle
  and the title, \<open>assign_grade(handle, title, grade)\<close> inserts the row and prints its
  confirmation, and \<open>get_grade_by_github_title(handle, title)\<close> on the datastore it
  leaves prints a message that ends with the assigned grade and \<open>points\<close>.
\<close>

theorem assign_grade_then_lookup:
  assumes "\<not> has_nul gh" "\<not> has_nul t" and "length gh \<le> 30" "length t \<le> 30"
    and "- 2147483648 \<le> n" "n \<le> 2147483647"
    and "find (\<lambda>s. github s = Some gh) (students db) = Some s"
    and "(Some gh, Some t) \<notin> set (map (\<lambda>g. (student_github g, project_title g)) (grades db))"
  shows "assign_grade db gh t n =
           Inr (db\<lparr>grades := grades db
                  @ [\<lparr>student_github = Some gh, project_title = Some t, grade = Some n\<rparr>]\<rparr>,
                ''Successfully graded '' @ gh @ [CHR 0x27] @ ''s '' @ t @ '' project ''
                  @ str_int n @ '' points.'') \<and>
         get_grade_by_github_title
           (db\<lparr>grades := grades db
              @ [\<lparr>student_github = Some gh, project_title = Some t, grade = Some n\<rparr>]\<rparr>) gh t =
           Inr (fmt_text (first_name s) @ '' '' @ fmt_text (last_name s) @ [CHR 0x27] @ ''s ''
                @ t @ '' project received '' @ str_int n @ '' points'')"
proof -
  let ?db' = "db\<lparr>grades := grades db
      @ [\<lparr>student_github = Some gh, project_title = Some t, grade = Some n\<rparr>]\<rparr>"
  from assms(8) have "matching_grades gh t (grades db) = []"
    by (rule no_matching_grades)
  then have m: "matching_grades gh t (grades ?db') =
      [\<lparr>student_github = Some gh, project_title = Some t, grade = Some n\<rparr>]"
    by (simp add: matching_grades_def)
  from find_filter [OF assms(7)]
  obtain ys where "filter (\<lambda>s. github s = Some gh) (students db) = s # ys" ..
  with m have "select_grade ?db' gh t =
      (first_name s, last_name s, Some n) # map (\<lambda>s. (first_name s, last_name s, Some n)) ys"
    by (simp add: select_grade_rows comp_def)
  then have "get_grade_by_github_title ?db' gh t =
      Inr (fmt_text (first_name s) @ '' '' @ fmt_text (last_name s) @ [CHR 0x27] @ ''s ''
           @ t @ '' project received '' @ str_int n @ '' points'')"
    by (simp add: get_grade_by_github_title_def fetchone_simps fmt_int_def)
  with assign_grade_accepted [OF assms(1-6), of db] show ?thesis
    by simp
qed

text \<open>
  Claim C3, as amended, on the example datastore:
  \<open>assign_grade("jhacks", "Markdown Challenge", 98)\<close> and the lookup of the same pair.
\<close>

theorem assign_grade_then_lookup_witness:
  "find (\<lambda>s. github s = Some ''jhacks'') (students example_db) =
     Some \<lparr>first_name = Some ''Jane'', last_name = Some ''Hacker'', github = Some ''jhacks''\<rparr> \<and>
   assign_grade example_db ''jhacks'' ''Markdown Challenge'' 98 =
     Inr (example_db\<lparr>grades := grades example_db
            @ [\<lparr>student_github = Some ''jhacks'', project_title = Some ''Markdown Challenge'',
                grade = Some 98\<rparr>]\<rparr>,
          ''Successfully graded jhacks'' @ [CHR 0x27]
            @ ''s Markdown Challenge project 98 points.'') \<and>
   get_grade_by_github_title
     (example_db\<lparr>grades := grades example_db
        @ [\<lparr>student_github = Some ''jhacks'', project_title = Some ''Markdown Challenge'',
            grade = Some 98\<rparr>]\<rparr>)
     ''jhacks'' ''Markdown Challenge'' =
     Inr (''Jane Hacker'' @ [CHR 0x27] @ ''s Markdown Challenge project received 98 points'')"
proof -
  have n: "\<not> has_nul ''jhacks''" "\<not> has_nul ''Markdown Challenge''"
    by (simp_all add: has_nul_def)
  have l: "length ''jhacks'' \<le> 30" "length ''Markdown Challenge'' \<le> 30"
    by simp_all
  have r: "- 2147483648 \<le> (98::int)" "(98::int) \<le> 2147483647"
    by simp_all
  have h1: "find (\<lambda>s. github s = Some ''jhacks'') (students example_db) =
     Some \<lparr>first_name = Some ''Jane'', last_name = Some ''Hacker'', github = Some ''jhacks''\<rparr>"
    by (simp add: example_db_def)
  have h2: "(Some ''jhacks'', Some ''Markdown Challenge'')
      \<notin> set (map (\<lambda>g. (student_github g, project_title g)) (grades example_db))"
    by (simp add: example_db_def)
  from h1 assign_grade_then_lookup [OF n l r h1 h2] show ?thesis
    by (simp add: fmt_text_def str_int_98)
qed

text \<open>
  Claim C3 as stated fails for a value that the datastore refuses: the grade 2147483648
  is out of the range of \<open>integer\<close>, a title of 38 characters does not fit
  \<open>character varying(30)\<close>, and a title that holds NUL cannot be sent.
  \<open>assign_grade\<close> raises, nothing is stored and nothing is printed, so the lookup of
  the pair finds no row.
\<close>

theorem assign_grade_refused_by_datastore:
  "assign_grade example_db ''jhacks'' ''Markdown Challenge'' 2147483648 = Inl DataError \<and>
   assign_grade example_db ''jhacks'' ''Markdown Challenge for Advanced Hackers'' 98 =
     Inl DataError \<and>
   assign_grade example_db ''jhacks'' [CHR ''M'', CHR 0x00, CHR ''d''] 98 = Inl ValueError \<and>
   get_grade_by_github_title example_db ''jhacks'' ''Markdown Challenge'' = Inl TypeError"
proof -
  have "select_grade example_db ''jhacks'' ''Markdown Challenge'' = []"
    by (simp add: select_grade_rows matching_grades_def example_db_def)
  then have "get_grade_by_github_title example_db ''jhacks'' ''Markdown Challenge'' =
      Inl TypeError"
    by (simp add: get_grade_by_github_title_def fetchone_simps)
  then show ?thesis
    by (simp add: assign_grade_def has_nul_def store_varchar30_def store_integer_def)
qed

subsection \<open>Tokens\<close>

lemma split_from_token:
  "\<forall>c \<in> set w. \<not> is_space c \<Longrightarrow> split_from cur (w @ rest) = split_from (cur @ w) rest"
  by (induction w arbitrary: cur) simp_all

lemma split_from_spaces: "\<forall>c \<in> set s. is_space c \<Longrightarrow> split_from [] s = []"
  by (induction s) simp_all

lemma split_from_token_space:
  assumes "w \<noteq> []" and "\<forall>c \<in> set w. \<not> is_space c" and "is_space d"
  shows "split_from [] (w @ d # rest) = w # split_from [] rest"
  using assms by (simp add: split_from_token)

lemma split_from_token_end:
  assumes "w \<noteq> []" and "\<forall>c \<in> set w. \<not> is_space c"
  shows "split_from [] w = [w]"
  using assms split_from_token [of w "[]" "[]"] by simp

lemma is_space_blank: "is_space (CHR '' '')"
  by (simp add: is_space_def)

text \<open>
  The line \<open>new_student <first> <last> <handle>\<close> splits into the command and the
  three arguments when none of the three is empty or holds whitespace.
\<close>

lemma str_split_new_student_line:
  assumes "fn \<noteq> []" "ln \<noteq> []" "gh \<noteq> []" and "\<forall>c \<in> set (fn @ ln @ gh). \<not> is_space c"
  shows "str_split (''new_student '' @ fn @ '' '' @ ln @ '' '' @ gh) =
     [''new_student'', fn, ln, gh]"
proof -
  have "split_from [] (''new_student '' @ fn @ '' '' @ ln @ '' '' @ gh) =
        ''new_student'' # split_from [] (fn @ '' '' @ ln @ '' '' @ gh)"
    using split_from_token_space [of "''new_student''" "CHR '' ''"]
    by (simp add: is_space_def)
  also have "split_from [] (fn @ '' '' @ ln @ '' '' @ gh) = fn # split_from [] (ln @ '' '' @ gh)"
    using assms split_from_token_space [of fn "CHR '' ''"] by (simp add: is_space_blank)
  also have "split_from [] (ln @ '' '' @ gh) = ln # split_from [] gh"
    using assms split_from_token_space [of ln "CHR '' ''"] by (simp add: is_space_blank)
  also have "split_from [] gh = [gh]"
    using assms split_from_token_end [of gh] by simp
  finally show ?thesis
    by (simp add: str_split_def)
qed

subsection \<open>The command loop\<close>

text \<open>
  Claim C5, as amended. For a first name, a last name and a handle that are not empty and
  hold no whitespace, the line \<open>new_student <first> <last> <handle>\<close> does what
  \<open>make_new_student(first, last, handle)\<close> does: the loop body leaves the same
  datastore and prints the same message, and the loop goes on from that datastore; where
  the call raises, the loop ends in the same fault.
\<close>

theorem new_student_command_same_as_call:
  assumes "fn \<noteq> []" "ln \<noteq> []" "gh \<noteq> []" and "\<forall>c \<in> set (fn @ ln @ gh). \<not> is_space c"
  shows "handle_line db (''new_student '' @ fn @ '' '' @ ln @ '' '' @ gh) =
           (case make_new_student db fn ln gh of
              Inl e \<Rightarrow> Inl e
            | Inr (db', text) \<Rightarrow> Inr (''new_student'', db', [Print text])) \<and>
         handle_input db ((''new_student '' @ fn @ '' '' @ ln @ '' '' @ gh) # rest) =
           (case make_new_student db fn ln gh of
              Inl e \<Rightarrow> (Crashed e, db, [Prompt prompt])
            | Inr (db', text) \<Rightarrow>
                emit [Prompt prompt, Print text] (handle_input db' rest))"
proof -
  have line: "handle_line db (''new_student '' @ fn @ '' '' @ ln @ '' '' @ gh) =
           (case make_new_student db fn ln gh of
              Inl e \<Rightarrow> Inl e
            | Inr (db', text) \<Rightarrow> Inr (''new_student'', db', [Print text]))"
    unfolding handle_line_def str_split_new_student_line [OF assms]
    by simp
  show ?thesis
    by (simp add: line del: append.simps split: sum.splits prod.splits)
qed

text \<open>
  Claim C5, as amended, on the example datastore: the line
  \<open>new_student Jane Hacker jhacks\<close> followed by \<open>quit\<close>.
\<close>

theorem new_student_command_same_as_call_witness:
  "make_new_student example_db ''Jane'' ''Hacker'' ''jhacks'' =
     Inr (example_db\<lparr>students := students example_db
            @ [\<lparr>first_name = Some ''Jane'', last_name = Some ''Hacker'',
                github = Some ''jhacks''\<rparr>]\<rparr>,
          ''Successfully added Jane Hacker.'') \<and>
   handle_input example_db [''new_student Jane Hacker jhacks'', ''quit''] =
     (Terminated,
      example_db\<lparr>students := students example_db
        @ [\<lparr>first_name = Some ''Jane'', last_name = Some ''Hacker'',
            github = Some ''jhacks''\<rparr>]\<rparr>,
      [Prompt ''HBA Database> '', Print ''Successfully added Jane Hacker.'',
       Prompt ''HBA Database> ''])"
proof -
  let ?db' = "example_db\<lparr>students := students example_db
        @ [\<lparr>first_name = Some ''Jane'', last_name = Some ''Hacker'',
            github = Some ''jhacks''\<rparr>]\<rparr>"
  have h: "\<forall>c \<in> set (''Jane'' @ ''Hacker'' @ ''jhacks''). \<not> is_space c"
    by (simp add: is_space_def)
  have m: "make_new_student example_db ''Jane'' ''Hacker'' ''jhacks'' =
      Inr (?db', ''Successfully added Jane Hacker.'')"
    by (simp add: make_new_student_def has_nul_def store_varchar30_def)
  have q: "handle_input ?db' [''quit''] = (Terminated, ?db', [Prompt prompt])"
    by (simp add: handle_line_def str_split_def is_space_def)
  from new_student_command_same_as_call
    [of "''Jane''" "''Hacker''" "''jhacks''" example_db "[''quit'']", OF _ _ _ h]
  have "handle_input example_db [''new_student Jane Hacker jhacks'', ''quit''] =
      emit [Prompt prompt, Print ''Successfully added Jane Hacker.'']
        (handle_input ?db' [''quit''])"
    by (simp add: m)
  then have "handle_input example_db [''new_student Jane Hacker jhacks'', ''quit''] =
     (Terminated, ?db',
      [Prompt ''HBA Database> '', Print ''Successfully added Jane Hacker.'',
       Prompt ''HBA Database> ''])"
    by (simp only: q emit_def prompt_def prod.case append.simps)
  with m show ?thesis
    by (rule conjI)
qed

text \<open>
  Claim C5 as stated fails for a name that holds whitespace and for an empty name: for
  the first name \<open>Mary Ann\<close> the line has four arguments, for the empty first name
  it has two, and either way the unpacking raises \<open>ValueError\<close> and no row is
  inserted, while the direct call inserts the row and prints the confirmation.
\<close>

theorem new_student_command_differs_from_call:
  "handle_input \<lparr>students = [], projects = [], grades = []\<rparr>
     [''new_student '' @ ''Mary Ann'' @ '' '' @ ''Hacker'' @ '' '' @ ''mhacks''] =
     (Crashed ValueError, \<lparr>students = [], projects = [], grades = []\<rparr>,
      [Prompt ''HBA Database> '']) \<and>
   make_new_student \<lparr>students = [], projects = [], grades = []\<rparr>
     ''Mary Ann'' ''Hacker'' ''mhacks'' =
     Inr (\<lparr>students = [\<lparr>first_name = Some ''Mary Ann'', last_name = Some ''Hacker'',
                          github = Some ''mhacks''\<rparr>], projects = [], grades = []\<rparr>,
          ''Successfully added Mary Ann Hacker.'') \<and>
   handle_input \<lparr>students = [], projects = [], grades = []\<rparr>
     [''new_student '' @ [] @ '' '' @ ''Hacker'' @ '' '' @ ''mhacks''] =
     (Crashed ValueError, \<lparr>students = [], projects = [], grades = []\<rparr>,
      [Prompt ''HBA Database> '']) \<and>
   make_new_student \<lparr>students = [], projects = [], grades = []\<rparr>
     [] ''Hacker'' ''mhacks'' =
     Inr (\<lparr>students = [\<lparr>first_name = Some [], last_name = Some ''Hacker'',
                          github = Some ''mhacks''\<rparr>], projects = [], grades = []\<rparr>,
          ''Successfully added  Hacker.'')"
  by (simp add: handle_line_def str_split_def is_space_def make_new_student_def
      has_nul_def store_varchar30_def prompt_def)

text \<open>
  Claim C6. A line whose first token is none of \<open>student\<close>, \<open>new_student\<close> and
  \<open>quit\<close> leaves the datastore as it is and prints \<open>Invalid Entry. Try again.\<close>,
  and the loop goes on; a line whose first token is \<open>quit\<close> ends the loop with the
  datastore as it is and nothing written after the prompt that read the line.
\<close>

theorem unknown_command_and_quit:
  "(str_split line = command # args \<and> command \<noteq> ''student''
      \<and> command \<noteq> ''new_student'' \<and> command \<noteq> ''quit'' \<longrightarrow>
      handle_line db line = Inr (command, db, [Print ''Invalid Entry. Try again.'']) \<and>
      handle_input db (line # rest) =
        emit [Prompt prompt, Print ''Invalid Entry. Try again.''] (handle_input db rest)) \<and>
   (str_split line = ''quit'' # args \<longrightarrow>
      handle_line db line = Inr (''quit'', db, []) \<and>
      handle_input db (line # rest) = (Terminated, db, [Prompt prompt]))"
  by (simp add: handle_line_def)

text \<open>
  Claim C6 on the example datastore: the line \<open>foobar\<close>, then \<open>quit now\<close>, with one
  more line that is never read.
\<close>

theorem unknown_command_and_quit_witness:
  "str_split ''foobar'' = [''foobar''] \<and>
   str_split ''quit now'' = [''quit'', ''now''] \<and>
   handle_input example_db [''foobar'', ''quit now'', ''new_student A B c''] =
     (Terminated, example_db,
      [Prompt ''HBA Database> '', Print ''Invalid Entry. Try again.'',
       Prompt ''HBA Database> ''])"
proof -
  have f: "str_split ''foobar'' = [''foobar'']"
    by (simp add: str_split_def is_space_def)
  have q: "str_split ''quit now'' = [''quit'', ''now'']"
    by (simp add: str_split_def is_space_def)
  from f q
    unknown_command_and_quit [of "''foobar''" "''foobar''" "[]" example_db
      "[''quit now'', ''new_student A B c'']"]
    unknown_command_and_quit [of "''quit now''" "''quit''" "[''now'']" example_db
      "[''new_student A B c'']"]
  show ?thesis
    by (simp add: emit_def prompt_def)
qed

text \<open>
  Claim C9. A line whose first token is \<open>new_student\<close> and that has fewer than three
  further tokens ends the loop in the fault of the three-way unpacking
  (\<open>ValueError\<close>), with the datastore as it was: no row is inserted.
\<close>

theorem new_student_too_few_arguments:
  assumes "str_split line = ''new_student'' # args" and "length args < 3"
  shows "handle_input db (line # rest) = (Crashed ValueError, db, [Prompt prompt])"
proof -
  from assms(2) have "handle_line db line = Inl ValueError"
    unfolding handle_line_def assms(1)
    by (auto split: list.splits)
  then show ?thesis
    by simp
qed

text \<open>Claim C9 on the example datastore: the line \<open>new_student Jane Hacker\<close>.\<close>

theorem new_student_too_few_arguments_witness:
  "str_split ''new_student Jane Hacker'' = [''new_student'', ''Jane'', ''Hacker''] \<and>
   handle_input example_db [''new_student Jane Hacker'', ''quit''] =
     (Crashed ValueError, example_db, [Prompt ''HBA Database> ''])"
proof -
  have h: "str_split ''new_student Jane Hacker'' = ''new_student'' # [''Jane'', ''Hacker'']"
    by (simp add: str_split_def is_space_def)
  from h new_student_too_few_arguments [OF h, of example_db "[''quit'']"]
  show ?thesis
    by (simp add: prompt_def)
qed

text \<open>
  Claim C10. A line of whitespace only (the empty line too) has no token, and the loop
  ends in the fault of \<open>tokens[0]\<close> (\<open>IndexError\<close>): no message is printed and the
  prompt does not come again.
\<close>

theorem blank_line_faults:
  assumes "\<forall>c \<in> set line. is_space c"
  shows "str_split line = [] \<and>
         handle_input db (line # rest) = (Crashed IndexError, db, [Prompt prompt])"
  using assms by (simp add: str_split_def split_from_spaces handle_line_def)

text \<open>Claim C10 on the example datastore: a line of two blanks and a tab.\<close>

theorem blank_line_faults_witness:
  "str_split [CHR '' '', CHR '' '', CHR 0x09] = [] \<and>
   handle_input example_db [[CHR '' '', CHR '' '', CHR 0x09], ''quit''] =
     (Crashed IndexError, example_db, [Prompt ''HBA Database> ''])"
proof -
  have h: "\<forall>c \<in> set [CHR '' '', CHR '' '', CHR 0x09]. is_space c"
    by (simp add: is_space_def)
  from blank_line_faults [OF h, of example_db "[''quit'']"]
  show ?thesis
    by (simp add: prompt_def)
qed

subsection \<open>The script\<close>

text \<open>
  Claim C7. The docstrings make \<open>handle_input\<close> the main loop of a front end for
  users, but the call \<open>handle_input()\<close> in the \<open>__main__\<close> block is commented out.
  Run as a script on the input lines \<open>student jhacks\<close> and \<open>quit\<close>, the program
  writes its two configuration entries and ends: it reads no line and writes no prompt.
  The command loop on the same lines writes the prompt, the student \<open>jhacks\<close> and the
  prompt again.
\<close>

theorem script_never_enters_command_loop:
  "main example_db [''student jhacks'', ''quit''] =
     (\<lparr>SQLALCHEMY_DATABASE_URI = Some ''postgresql:///project-tracker'',
       SQLALCHEMY_TRACK_MODIFICATIONS = Some False\<rparr>, (Terminated, example_db, [])) \<and>
   handle_input example_db [''student jhacks'', ''quit''] =
     (Terminated, example_db,
      [Prompt ''HBA Database> '', Print ''Student: Jane Hacker\<newline>GitHub account: jhacks'',
       Prompt ''HBA Database> ''])"
proof -
  have s: "get_student_by_github example_db ''jhacks'' =
      Inr ''Student: Jane Hacker\<newline>GitHub account: jhacks''"
    by (simp add: get_student_by_github_def select_student_rows fetchone_simps fmt_text_def
        example_db_def)
  have "handle_input example_db [''student jhacks'', ''quit''] =
     (Terminated, example_db,
      [Prompt ''HBA Database> '', Print ''Student: Jane Hacker\<newline>GitHub account: jhacks'',
       Prompt ''HBA Database> ''])"
    by (simp add: handle_line_def str_split_def is_space_def s emit_def prompt_def)
  then show ?thesis
    by (simp add: main_def connect_to_db_def app_def)
qed

end
